theory Spec2Isabelle
  imports Complex_Main "HOL-Library.Sublist"
begin

section \<open>Errors\<close>

text \<open>
  What the program throws or hands to a callback: a JavaScript \<^verbatim>\<open>Error\<close> with its
  message, or the \<^verbatim>\<open>TypeError\<close> the language itself raises.
\<close>

datatype error = Error string | TypeError

section \<open>Configuration (app.js, lines 40--62 and 127)\<close>

text \<open>
  The values \<^verbatim>\<open>JSON.parse\<close> can produce. A nested object is kept as the list of its
  properties; the configuration object itself is a map from property names to values,
  where \<open>None\<close> is JavaScript's \<^verbatim>\<open>undefined\<close> (the property is absent).
\<close>

datatype jsval =
    JNull
  | JBool bool
  | JNum rat
  | JStr string
  | JArr "jsval list"
  | JObj "(string \<times> jsval) list"

type_synonym jsobj = "string \<rightharpoonup> jsval"

text \<open>JavaScript truthiness of a value, and the test \<^verbatim>\<open>!config.params\<close> on a property.\<close>

fun truthy :: "jsval \<Rightarrow> bool" where
  "truthy JNull = False"
| "truthy (JBool b) = b"
| "truthy (JNum n) = (n \<noteq> 0)"
| "truthy (JStr s) = (s \<noteq> [])"
| "truthy (JArr xs) = True"
| "truthy (JObj ps) = True"

definition js_not :: "jsval option \<Rightarrow> bool" where
  "js_not p = (case p of None \<Rightarrow> True | Some v \<Rightarrow> \<not> truthy v)"

text \<open>
  The loose comparison \<^verbatim>\<open>config.driver == "disk"\<close> of line 57 turns an object or an
  array on the left into a primitive first. A parsed object has no callable property
  of its own, so it prints as \<^verbatim>\<open>[object Object]\<close> through the inherited
  \<^verbatim>\<open>toString\<close>, unless it has a property \<^verbatim>\<open>toString\<close> of its own, which hides the
  inherited one and is not callable: then the conversion throws a \<^verbatim>\<open>TypeError\<close>. An
  array prints as the comma-joined text of its elements, \<^verbatim>\<open>null\<close> as the empty text,
  and throws when the conversion of an element does.
\<close>

fun to_primitive_throws :: "jsval \<Rightarrow> bool" where
  "to_primitive_throws (JObj ps) = (map_of ps ''toString'' \<noteq> None)"
| "to_primitive_throws (JArr xs) = (\<exists>x \<in> set xs. to_primitive_throws x)"
| "to_primitive_throws JNull = False"
| "to_primitive_throws (JBool b) = False"
| "to_primitive_throws (JNum n) = False"
| "to_primitive_throws (JStr s) = False"

text \<open>
  The comparison when nothing throws. A string is compared as a string. A number, a
  boolean and \<^verbatim>\<open>null\<close> never equal \<^verbatim>\<open>"disk"\<close>. The text of an array with no element
  is empty and that of an array with several elements has a comma, so only a
  one-element array whose element prints as \<^verbatim>\<open>disk\<close> compares equal.
\<close>

fun loose_eq_disk :: "jsval \<Rightarrow> bool" where
  "loose_eq_disk (JStr s) = (s = ''disk'')"
| "loose_eq_disk (JArr [x]) = loose_eq_disk x"
| "loose_eq_disk JNull = False"
| "loose_eq_disk (JBool b) = False"
| "loose_eq_disk (JNum n) = False"
| "loose_eq_disk (JArr xs) = False"
| "loose_eq_disk (JObj ps) = False"

definition driver_eq_disk :: "jsobj \<Rightarrow> error + bool" where
  "driver_eq_disk config =
     (case config ''driver'' of
        None \<Rightarrow> Inr False
      | Some d \<Rightarrow> if to_primitive_throws d then Inl TypeError else Inr (loose_eq_disk d))"

text \<open>The object literal \<^verbatim>\<open>defaults\<close>.\<close>

definition defaults :: jsobj where
  "defaults =
     [''port'' \<mapsto> JNum 4000,
      ''address'' \<mapsto> JStr ''localhost'',
      ''hostname'' \<mapsto> JStr ''localhost'',
      ''driver'' \<mapsto> JStr ''disk'',
      ''name'' \<mapsto> JStr ''Open Farm Game'',
      ''description'' \<mapsto> JStr ''The social game that brings the excitement of subsistence farming to the social internet.'']"

text \<open>
  \<^verbatim>\<open>_.defaults(obj, defaults)\<close> of the underscore library, as it was when app.js was
  written (1.4.4 and before): for every property of the defaults, the test
  \<^verbatim>\<open>obj[prop] == null\<close> decides, so a property that is undefined or \<^verbatim>\<open>null\<close> in
  \<open>obj\<close> gets the default. Properties the defaults do not have are not visited.
\<close>

definition us_defaults :: "jsobj \<Rightarrow> jsobj \<Rightarrow> jsobj" where
  "us_defaults obj dflt =
     (\<lambda>k. case dflt k of
            None \<Rightarrow> obj k
          | Some d \<Rightarrow>
              (case obj k of
                 None \<Rightarrow> Some d
               | Some v \<Rightarrow> if v = JNull then Some d else Some v))"

text \<open>
  Lines 49--54. The argument is the parsed content of \<^verbatim>\<open>/etc/openfarmgame.json\<close>,
  \<open>None\<close> when \<^verbatim>\<open>fs.existsSync\<close> answers false.
\<close>

definition read_config :: "jsobj option \<Rightarrow> jsobj" where
  "read_config file =
     (case file of
        Some parsed \<Rightarrow> us_defaults parsed defaults
      | None \<Rightarrow> defaults)"

text \<open>
  Lines 56--62. The comparison of the driver is reached only when \<^verbatim>\<open>!config.params\<close>
  holds; when it throws, the module stops there.
\<close>

definition default_params :: "jsobj \<Rightarrow> error + jsobj" where
  "default_params config =
     (if js_not (config ''params'') then
        (case driver_eq_disk config of
           Inl err \<Rightarrow> Inl err
         | Inr disk \<Rightarrow>
             if disk
             then Inr (config(''params'' \<mapsto> JObj [(''dir'', JStr ''/var/lib/openfarmgame/'')]))
             else Inr (config(''params'' \<mapsto> JObj [])))
      else Inr config)"

text \<open>The configuration after line 62, or the error that ended the module.\<close>

definition load_config :: "jsobj option \<Rightarrow> error + jsobj" where
  "load_config file = default_params (read_config file)"

text \<open>
  Line 127: the secret handed to \<^verbatim>\<open>express.session\<close>. \<^verbatim>\<open>_(config).has(k)\<close> is true
  exactly when the property is the object's own.
\<close>

definition us_has :: "jsobj \<Rightarrow> string \<Rightarrow> bool" where
  "us_has obj k = (obj k \<noteq> None)"

definition session_secret :: "jsobj \<Rightarrow> jsval option" where
  "session_secret config =
     (if us_has config ''sessionSecret'' then config ''sessionSecret'' else Some (JStr ''insecure''))"

section \<open>The data model\<close>

text \<open>
  Modelled from the spec: the entities CropType, Crop and Plot of the data model; the
  files \<^verbatim>\<open>models/croptype.js\<close>, \<^verbatim>\<open>models/crop.js\<close> and \<^verbatim>\<open>models/plot.js\<close> are
  not part of the visible source. Times and durations are integers (seconds in the
  spec's scenarios). A crop carries its species, so that both deadlines are functions
  of the crop alone, a revision number for the conditional write of the persistence
  layer, and the reminder flag of the need-water window. Of a plot, app.js reads the
  field \<^verbatim>\<open>owner\<close> only; of a farmer, the field \<^verbatim>\<open>id\<close>.
\<close>

datatype phase = Growing | NeedsWater | ReadyToHarvest | Withered

record croptype =
  type_id :: string
  type_name :: string
  growth_duration :: int
  watering_interval :: int
  grace_period :: int
  yield :: int

record crop =
  crop_id :: string
  crop_type :: croptype
  crop_owner :: string
  planted :: int
  last_watered :: int
  phase :: phase
  reminded :: bool
  rev :: nat

record plot =
  uuid :: string
  owner :: string
  plot_crop :: "crop option"

record farmer =
  id_farmer :: string

section \<open>Requests, middleware and routes (app.js, lines 143--248)\<close>

text \<open>
  An error handed to \<^verbatim>\<open>next\<close> is an \<^verbatim>\<open>Error\<close> with its message. Reading a property
  of \<^verbatim>\<open>null\<close> or \<^verbatim>\<open>undefined\<close> throws a \<^verbatim>\<open>TypeError\<close>, which the router catches
  and treats like an error handed to \<^verbatim>\<open>next\<close>.
\<close>

text \<open>
  The parts of a request the middleware reads and writes: the farmer identifier of the
  session, the route parameters, and the properties \<^verbatim>\<open>user\<close>, \<^verbatim>\<open>plot\<close>, \<^verbatim>\<open>crop\<close>
  that the middleware attaches (\<open>None\<close> for \<^verbatim>\<open>null\<close> and \<^verbatim>\<open>undefined\<close>).
\<close>

record request =
  session_farmerID :: "string option"
  params :: "string \<rightharpoonup> string"
  req_user :: "farmer option"
  req_plot :: "plot option"
  req_crop :: "crop option"

text \<open>
  The databank behind \<^verbatim>\<open>Farmer.get\<close>, \<^verbatim>\<open>Plot.get\<close> and \<^verbatim>\<open>Crop.get\<close>: each lookup
  answers with an error or with the object. The models are not part of the visible
  source, so the lookups are parameters.
\<close>

record bank =
  Farmer_get :: "string \<Rightarrow> error + farmer"
  Plot_get :: "string option \<Rightarrow> error + plot"
  Crop_get :: "string option \<Rightarrow> error + crop"

type_synonym middleware = "bank \<Rightarrow> request \<Rightarrow> error + request"

text \<open>\<^verbatim>\<open>!req.session.farmerID\<close>: the identifier is missing or the empty string.\<close>

definition no_farmerID :: "request \<Rightarrow> bool" where
  "no_farmerID req = (case session_farmerID req of None \<Rightarrow> True | Some i \<Rightarrow> i = [])"

definition userAuth :: middleware where
  "userAuth db req =
     (let req1 = req\<lparr>req_user := None\<rparr> in
      case session_farmerID req of
        None \<Rightarrow> Inr req1
      | Some i \<Rightarrow>
          if i = [] then Inr req1
          else (case Farmer_get db i of
                  Inl err \<Rightarrow> Inl err
                | Inr f \<Rightarrow> Inr (req1\<lparr>req_user := Some f\<rparr>)))"

definition userOptional :: middleware where
  "userOptional db req = Inr req"

definition userRequired :: middleware where
  "userRequired db req =
     (case req_user req of
        None \<Rightarrow> Inl (Error ''User is required'')
      | Some f \<Rightarrow> Inr req)"

definition noUser :: middleware where
  "noUser db req =
     (case req_user req of
        Some f \<Rightarrow> Inl (Error ''Already logged in'')
      | None \<Rightarrow> Inr req)"

definition userIsFarmer :: middleware where
  "userIsFarmer db req =
     (case params req ''webfinger'' of
        None \<Rightarrow> Inl (Error ''Must be the same farmer'')
      | Some w \<Rightarrow>
          if w = [] then Inl (Error ''Must be the same farmer'')
          else (case req_user req of
                  None \<Rightarrow> Inl TypeError
                | Some f \<Rightarrow>
                    if id_farmer f = w then Inr req
                    else Inl (Error ''Must be the same farmer'')))"

definition reqPlot :: middleware where
  "reqPlot db req =
     (case Plot_get db (params req ''plot'') of
        Inl err \<Rightarrow> Inl err
      | Inr p \<Rightarrow> Inr (req\<lparr>req_plot := Some p\<rparr>))"

definition reqCrop :: middleware where
  "reqCrop db req =
     (case Crop_get db (params req ''crop'') of
        Inl err \<Rightarrow> Inl err
      | Inr c \<Rightarrow> Inr (req\<lparr>req_crop := Some c\<rparr>))"

definition userIsOwner :: middleware where
  "userIsOwner db req =
     (case req_user req of
        None \<Rightarrow> Inl TypeError
      | Some f \<Rightarrow>
          (case req_plot req of
             None \<Rightarrow> Inl TypeError
           | Some p \<Rightarrow>
               if id_farmer f = owner p then Inr req
               else Inl (Error ''Must be the owner'')))"

text \<open>The route table, in the order of the source. The handlers live in \<^verbatim>\<open>./routes\<close>.\<close>

datatype verb = GET | POST

datatype handler =
    routes_index | routes_login | routes_handleLogin | routes_handleLogout
  | routes_about | routes_authorized | routes_farmer | routes_plot | routes_crop
  | routes_plant | routes_handlePlant | routes_tearUp | routes_handleTearUp
  | routes_water | routes_handleWater | routes_harvest | routes_handleHarvest
  | routes_buyPlot | routes_handleBuyPlot | routes_hostmeta

record route =
  http_method :: verb
  pattern :: string
  chain :: "middleware list"
  target :: handler

definition mk_route :: "verb \<Rightarrow> string \<Rightarrow> middleware list \<Rightarrow> handler \<Rightarrow> route" where
  "mk_route v p ms h = \<lparr>http_method = v, pattern = p, chain = ms, target = h\<rparr>"

definition app_routes :: "route list" where
  "app_routes =
    [mk_route GET ''/'' [userAuth, userOptional] routes_index,
     mk_route GET ''/login'' [userAuth, noUser] routes_login,
     mk_route POST ''/login'' [userAuth, noUser] routes_handleLogin,
     mk_route POST ''/logout'' [userAuth, userRequired] routes_handleLogout,
     mk_route GET ''/about'' [userAuth, userOptional] routes_about,
     mk_route GET ''/authorized/:hostname'' [] routes_authorized,
     mk_route GET ''/farmer/:webfinger'' [userAuth, userOptional] routes_farmer,
     mk_route GET ''/plot/:plot'' [userAuth, userOptional, reqPlot] routes_plot,
     mk_route GET ''/crop/:crop'' [userAuth, userOptional, reqCrop] routes_crop,
     mk_route GET ''/plot/:plot/plant'' [userAuth, userRequired, reqPlot, userIsOwner] routes_plant,
     mk_route POST ''/plot/:plot/plant'' [userAuth, userRequired, reqPlot, userIsOwner] routes_handlePlant,
     mk_route GET ''/plot/:plot/tearup'' [userAuth, userRequired, reqPlot, userIsOwner] routes_tearUp,
     mk_route POST ''/plot/:plot/tearup'' [userAuth, userRequired, reqPlot, userIsOwner] routes_handleTearUp,
     mk_route GET ''/plot/:plot/water'' [userAuth, userRequired, reqPlot, userIsOwner] routes_water,
     mk_route POST ''/plot/:plot/water'' [userAuth, userRequired, reqPlot, userIsOwner] routes_handleWater,
     mk_route GET ''/plot/:plot/harvest'' [userAuth, userRequired, reqPlot, userIsOwner] routes_harvest,
     mk_route POST ''/plot/:plot/harvest'' [userAuth, userRequired, reqPlot, userIsOwner] routes_handleHarvest,
     mk_route GET ''/buy-plot'' [userAuth, userRequired] routes_buyPlot,
     mk_route POST ''/buy-plot'' [userAuth, userRequired] routes_handleBuyPlot,
     mk_route GET ''/.well-known/host-meta.json'' [] routes_hostmeta]"

text \<open>
  The router: the first route of the table with the method and the pattern; its
  callbacks run in order, each on the request the one before it left; the first error
  ends the chain, and the handler runs only when every callback called \<^verbatim>\<open>next()\<close>.
  The handlers are parameters that act on a world \<open>'w\<close> (databank content, session).
\<close>

fun find_route :: "route list \<Rightarrow> verb \<Rightarrow> string \<Rightarrow> route option" where
  "find_route [] v p = None"
| "find_route (r # rs) v p = (if http_method r = v \<and> pattern r = p then Some r else find_route rs v p)"

fun run_chain :: "bank \<Rightarrow> middleware list \<Rightarrow> request \<Rightarrow> error + request" where
  "run_chain db [] req = Inr req"
| "run_chain db (m # ms) req =
     (case m db req of
        Inl err \<Rightarrow> Inl err
      | Inr req' \<Rightarrow> run_chain db ms req')"

definition serve ::
  "bank \<Rightarrow> (handler \<Rightarrow> request \<Rightarrow> 'w \<Rightarrow> (error + 'r) \<times> 'w) \<Rightarrow> route \<Rightarrow> request \<Rightarrow> 'w \<Rightarrow> (error + 'r) \<times> 'w" where
  "serve db handlers r req world =
     (case run_chain db (chain r) req of
        Inl err \<Rightarrow> (Inl err, world)
      | Inr req' \<Rightarrow> handlers (target r) req' world)"

section \<open>Startup (app.js, lines 86--311)\<close>

text \<open>
  What a step of the startup does with its callback: it calls it without an error,
  calls it with an error, never calls it, or throws before it gets there.
\<close>

datatype outcome = Completed | Failed error | Pending | Thrown

text \<open>The calls of the startup that are visible from outside, in a trace.\<close>

datatype event =
    db_connect
  | set_bank
  | CropType_initialData
  | create_server
  | updater_start
  | app_listen
  | bounce_listen
  | log_listening

text \<open>
  What the collaborators do, as parameters: the outcome of \<^verbatim>\<open>db.connect\<close> and of
  \<^verbatim>\<open>CropType.initialData\<close>, whether the construction of the server (lines 102--290)
  and \<^verbatim>\<open>app.updater.start()\<close> return or throw, and whether \<^verbatim>\<open>app.listen\<close> ever
  calls its callback. \<open>has_key\<close> is \<^verbatim>\<open>_.has(config, "key")\<close>, which decides whether the
  bouncer exists.
\<close>

record collaborators =
  connect_outcome :: outcome
  initialData_outcome :: outcome
  server_setup_returns :: bool
  updater_start_returns :: bool
  listen_calls_back :: bool
  has_key :: bool

type_synonym task = "event list \<Rightarrow> outcome \<times> event list"

text \<open>
  \<^verbatim>\<open>async.waterfall(tasks, final)\<close>: the tasks run one after the other, each when the
  one before it has called its callback without an error; the first error goes to the
  final callback at once and the remaining tasks never run. A task that throws or never
  calls back leaves the rest, and the final callback, unrun.
\<close>

fun waterfall :: "task list \<Rightarrow> (error option \<Rightarrow> event list \<Rightarrow> event list) \<Rightarrow> event list \<Rightarrow> event list" where
  "waterfall [] final tr = final None tr"
| "waterfall (t # ts) final tr =
     (case t tr of
        (Completed, tr') \<Rightarrow> waterfall ts final tr'
      | (Failed err, tr') \<Rightarrow> final (Some err) tr'
      | (Pending, tr') \<Rightarrow> tr'
      | (Thrown, tr') \<Rightarrow> tr')"

definition task_connect :: "collaborators \<Rightarrow> task" where
  "task_connect env tr = (connect_outcome env, tr @ [db_connect])"

definition task_initialData :: "collaborators \<Rightarrow> task" where
  "task_initialData env tr = (initialData_outcome env, tr @ [set_bank, CropType_initialData])"

definition task_serve :: "collaborators \<Rightarrow> task" where
  "task_serve env tr =
     (if \<not> server_setup_returns env then (Thrown, tr @ [create_server])
      else if \<not> updater_start_returns env then (Thrown, tr @ [create_server, updater_start])
      else
        (if listen_calls_back env then Completed else Pending,
         tr @ [create_server, updater_start, app_listen]
            @ (if has_key env then [bounce_listen] else [])))"

text \<open>The final callback takes no argument: it prints its line whatever happened.\<close>

definition final_callback :: "error option \<Rightarrow> event list \<Rightarrow> event list" where
  "final_callback err tr = tr @ [log_listening]"

definition startup :: "collaborators \<Rightarrow> event list" where
  "startup env =
     waterfall [task_connect env, task_initialData env, task_serve env] final_callback []"

text \<open>The four steps of the initialisation order, picked out of a trace.\<close>

definition is_step :: "event \<Rightarrow> bool" where
  "is_step e = (e = db_connect \<or> e = CropType_initialData \<or> e = updater_start \<or> e = app_listen)"

definition steps :: "event list \<Rightarrow> event list" where
  "steps tr = filter is_step tr"

section \<open>The crop state machine\<close>

text \<open>
  Modelled from the spec: the transition rule of the crop state machine and the
  watering, harvest and tear-up operations; \<^verbatim>\<open>models/crop.js\<close>, \<^verbatim>\<open>models/plot.js\<close>
  and \<^verbatim>\<open>lib/updater.js\<close> are not part of the visible source. The definitions follow
  section 4.1 of the spec rule by rule, and section 3 for the derived deadlines.
\<close>

text \<open>
  Modelled from the spec: the error kinds of section 7 and the event kinds of section 6
  (declared in the missing \<^verbatim>\<open>models/crop.js\<close> and \<^verbatim>\<open>lib/notifier.js\<close>).
\<close>

datatype error_kind = NotFoundError | InvalidStateError | OwnershipError | ConflictError

datatype event_kind = ready | withered | needsWater

text \<open>
  Modelled from the spec: the derived deadlines of a crop (section 3), the time from
  which watering is due, and the two phases without automatic transition; they belong
  to the missing \<^verbatim>\<open>models/crop.js\<close>.
\<close>

definition maturity_deadline :: "crop \<Rightarrow> int" where
  "maturity_deadline c = planted c + growth_duration (crop_type c)"

definition watering_due :: "crop \<Rightarrow> int" where
  "watering_due c = last_watered c + watering_interval (crop_type c)"

definition withering_deadline :: "crop \<Rightarrow> int" where
  "withering_deadline c =
     last_watered c + watering_interval (crop_type c) + grace_period (crop_type c)"

definition terminal :: "phase \<Rightarrow> bool" where
  "terminal ph = (ph = ReadyToHarvest \<or> ph = Withered)"

text \<open>
  Modelled from the spec: the transition rule \<open>reconcile(crop, now)\<close> of the missing
  \<^verbatim>\<open>models/crop.js\<close> and \<^verbatim>\<open>lib/updater.js\<close>, rules 1 to 5 in their order, with the
  events to notify. The reminder of rule 4 is emitted when the crop's flag is not yet
  set, and sets it.
\<close>

definition reconcile :: "crop \<Rightarrow> int \<Rightarrow> crop \<times> event_kind list" where
  "reconcile c now =
     (if terminal (phase c) then (c, [])
      else if maturity_deadline c \<le> now then (c\<lparr>phase := ReadyToHarvest\<rparr>, [ready])
      else if withering_deadline c \<le> now then (c\<lparr>phase := Withered\<rparr>, [withered])
      else if watering_due c \<le> now then
        (c\<lparr>phase := NeedsWater, reminded := True\<rparr>, if reminded c then [] else [needsWater])
      else (c\<lparr>phase := Growing\<rparr>, []))"

text \<open>
  Modelled from the spec: the three operations a farmer requests on the crop of a plot
  (the missing \<^verbatim>\<open>models/crop.js\<close> and \<^verbatim>\<open>models/plot.js\<close>). Each checks that the crop exists, then the owner, then reconciles the crop against
  the time of the request and checks the phase. Harvest also returns the yield credited.
\<close>

definition water :: "plot \<Rightarrow> string \<Rightarrow> int \<Rightarrow> error_kind + plot" where
  "water p who now =
     (case plot_crop p of
        None \<Rightarrow> Inl NotFoundError
      | Some c \<Rightarrow>
          if owner p \<noteq> who then Inl OwnershipError
          else
            (let c' = fst (reconcile c now) in
             if terminal (phase c') then Inl InvalidStateError
             else Inr (p\<lparr>plot_crop :=
                          Some (c'\<lparr>last_watered := now, phase := Growing, reminded := False\<rparr>)\<rparr>)))"

definition harvest :: "plot \<Rightarrow> string \<Rightarrow> int \<Rightarrow> error_kind + plot \<times> int" where
  "harvest p who now =
     (case plot_crop p of
        None \<Rightarrow> Inl NotFoundError
      | Some c \<Rightarrow>
          if owner p \<noteq> who then Inl OwnershipError
          else
            (let c' = fst (reconcile c now) in
             if phase c' \<noteq> ReadyToHarvest then Inl InvalidStateError
             else Inr (p\<lparr>plot_crop := None\<rparr>, yield (crop_type c'))))"

definition tearUp :: "plot \<Rightarrow> string \<Rightarrow> int \<Rightarrow> error_kind + plot" where
  "tearUp p who now =
     (case plot_crop p of
        None \<Rightarrow> Inl NotFoundError
      | Some c \<Rightarrow>
          if owner p \<noteq> who then Inl OwnershipError
          else
            (let c' = fst (reconcile c now) in
             if phase c' = ReadyToHarvest then Inl InvalidStateError
             else Inr (p\<lparr>plot_crop := None\<rparr>)))"

text \<open>
  Modelled from the spec: everything that can happen to the crop of a plot through the
  missing \<^verbatim>\<open>models/crop.js\<close> and \<^verbatim>\<open>lib/updater.js\<close>, a time-driven reconciliation
  (a sweep or a read at some time) or one of the three requests.
\<close>

datatype action =
    Reconcile int
  | Water string int
  | Harvest string int
  | TearUp string int

fun apply_action :: "plot \<Rightarrow> action \<Rightarrow> error_kind + plot" where
  "apply_action p (Reconcile now) =
     (case plot_crop p of
        None \<Rightarrow> Inr p
      | Some c \<Rightarrow> Inr (p\<lparr>plot_crop := Some (fst (reconcile c now))\<rparr>))"
| "apply_action p (Water who now) = water p who now"
| "apply_action p (Harvest who now) =
     (case harvest p who now of Inl e \<Rightarrow> Inl e | Inr (p', reward) \<Rightarrow> Inr p')"
| "apply_action p (TearUp who now) = tearUp p who now"

text \<open>
  Modelled from the spec: the reconciliations of the missing \<^verbatim>\<open>lib/updater.js\<close> at a
  list of times, one after the other.
\<close>

fun reconcile_all :: "crop \<Rightarrow> int list \<Rightarrow> crop" where
  "reconcile_all c [] = c"
| "reconcile_all c (now # ts) = reconcile_all (fst (reconcile c now)) ts"

section \<open>The CropType registry\<close>

text \<open>
  Modelled from the spec: the operation \<open>ensureInitialData\<close> of the registry
  (\<^verbatim>\<open>CropType.initialData\<close> in app.js; \<^verbatim>\<open>models/croptype.js\<close> is not part of the
  visible source). The catalog is the list of the crop types persisted; the fixed seed
  list is a parameter.
\<close>

definition ensureInitialData :: "croptype list \<Rightarrow> croptype list \<Rightarrow> croptype list" where
  "ensureInitialData seed catalog = (if catalog = [] then catalog @ seed else catalog)"

section \<open>The update engine\<close>

text \<open>
  Modelled from the spec: the persistence contract of section 6 and the sweep of
  section 4.2; \<^verbatim>\<open>lib/updater.js\<close> is not part of the visible source. The store maps
  crop identifiers to crops. A save is the conditional write of section 5: it fails with
  \<open>NotFoundError\<close> when the crop is gone and with \<open>ConflictError\<close> when the stored
  revision is not the one that was read. The query that fetches the working set is a
  parameter: it may fail, and what it returns may already be stale.
\<close>

type_synonym store = "string \<rightharpoonup> crop"

definition save :: "store \<Rightarrow> crop \<Rightarrow> error_kind + store" where
  "save s c =
     (case s (crop_id c) of
        None \<Rightarrow> Inl NotFoundError
      | Some old \<Rightarrow>
          if rev old \<noteq> rev c then Inl ConflictError
          else Inr (s(crop_id c \<mapsto> c\<lparr>rev := Suc (rev c)\<rparr>)))"

text \<open>
  Modelled from the spec: the state of a sweep of the missing \<^verbatim>\<open>lib/updater.js\<close>, that
  is the store, the notifications queued (farmer, event, crop), the log of the errors
  recovered, and the crops the sweep has dealt with.
\<close>

record sweep_state =
  sw_store :: store
  notifications :: "(string \<times> event_kind \<times> string) list"
  sw_log :: "(string \<times> error_kind) list"
  processed :: "string list"

text \<open>
  Modelled from the spec: what the sweep of the missing \<^verbatim>\<open>lib/updater.js\<close> does with
  one crop of the working set. The transition rule is applied against the sweep's time;
  a crop whose phase did not change is left alone; a changed crop is saved and its
  events are queued; a failed save is logged and the crop is skipped.
\<close>

definition sweep_crop :: "int \<Rightarrow> sweep_state \<Rightarrow> crop \<Rightarrow> sweep_state" where
  "sweep_crop now st c =
     (let (c', evs) = reconcile c now;
          st1 = st\<lparr>processed := processed st @ [crop_id c]\<rparr>
      in if phase c' = phase c then st1
         else
           (case save (sw_store st1) c' of
              Inl e \<Rightarrow> st1\<lparr>sw_log := sw_log st1 @ [(crop_id c, e)]\<rparr>
            | Inr s' \<Rightarrow>
                st1\<lparr>sw_store := s',
                    notifications :=
                      notifications st1 @ map (\<lambda>k. (crop_owner c, k, crop_id c)) evs\<rparr>))"

fun sweep_crops :: "int \<Rightarrow> sweep_state \<Rightarrow> crop list \<Rightarrow> sweep_state" where
  "sweep_crops now st [] = st"
| "sweep_crops now st (c # cs) = sweep_crops now (sweep_crop now st c) cs"

text \<open>
  Modelled from the spec: a sweep of the missing \<^verbatim>\<open>lib/updater.js\<close>. It starts with
  the query for the working set; the failure of the query aborts the sweep, which
  reports the error.
\<close>

definition sweep ::
  "(int \<Rightarrow> store \<Rightarrow> error_kind + crop list) \<Rightarrow> int \<Rightarrow> store \<Rightarrow> error_kind + sweep_state" where
  "sweep query now s =
     (case query now s of
        Inl e \<Rightarrow> Inl e
      | Inr working_set \<Rightarrow>
          Inr (sweep_crops now
                 \<lparr>sw_store = s, notifications = [], sw_log = [], processed = []\<rparr> working_set))"

text \<open>
  Modelled from the spec: the scheduler of the missing \<^verbatim>\<open>lib/updater.js\<close>, one sweep
  at each tick, on the store the sweep before left; an aborted sweep leaves the store
  alone and the next tick sweeps again. The result is the report of every sweep and the
  final store.
\<close>

fun run_sweeps ::
  "(int \<Rightarrow> store \<Rightarrow> error_kind + crop list) \<Rightarrow> int list \<Rightarrow> store
     \<Rightarrow> (error_kind + sweep_state) list \<times> store" where
  "run_sweeps query [] s = ([], s)"
| "run_sweeps query (now # ticks) s =
     (let r = sweep query now s;
          s' = (case r of Inl e \<Rightarrow> s | Inr st \<Rightarrow> sw_store st);
          (rs, s'') = run_sweeps query ticks s'
      in (r # rs, s''))"

section \<open>Example inputs\<close>

text \<open>
  A databank in which every farmer exists and every plot is the plot \<open>p1\<close> of alice; a
  request on that plot from the farmer of the session; handlers that count their calls.
\<close>

definition demo_bank :: bank where
  "demo_bank =
     \<lparr>Farmer_get = (\<lambda>i. Inr \<lparr>id_farmer = i\<rparr>),
      Plot_get = (\<lambda>u. Inr \<lparr>uuid = ''p1'', owner = ''alice'', plot_crop = None\<rparr>),
      Crop_get = (\<lambda>u. Inl (Error ''no such crop''))\<rparr>"

definition demo_request :: "string option \<Rightarrow> request" where
  "demo_request who =
     \<lparr>session_farmerID = who, params = [''plot'' \<mapsto> ''p1''],
      req_user = None, req_plot = None, req_crop = None\<rparr>"

definition demo_handlers :: "handler \<Rightarrow> request \<Rightarrow> nat \<Rightarrow> (error + unit) \<times> nat" where
  "demo_handlers h req world = (Inr (), Suc world)"

text \<open>Collaborators with which every step of the startup succeeds.\<close>

definition demo_collaborators :: collaborators where
  "demo_collaborators =
     \<lparr>connect_outcome = Completed, initialData_outcome = Completed,
      server_setup_returns = True, updater_start_returns = True,
      listen_calls_back = True, has_key = False\<rparr>"

text \<open>
  The crop type of the spec's scenarios, and a crop of it planted at time 0 and never
  watered since, in a given phase, alone or on the plot \<open>p1\<close>.
\<close>

definition carrot :: croptype where
  "carrot = \<lparr>type_id = ''carrot'', type_name = ''Carrot'', growth_duration = 60,
             watering_interval = 30, grace_period = 10, yield = 5\<rparr>"

definition demo_crop :: "phase \<Rightarrow> crop" where
  "demo_crop ph =
     \<lparr>crop_id = ''c1'', crop_type = carrot, crop_owner = ''alice'', planted = 0,
      last_watered = 0, phase = ph, reminded = False, rev = 0\<rparr>"

definition demo_plot :: "phase \<Rightarrow> plot" where
  "demo_plot ph = \<lparr>uuid = ''p1'', owner = ''alice'', plot_crop = Some (demo_crop ph)\<rparr>"

text \<open>
  A store with two crops, c1 and c2, and a working set read from it in which the copy of
  c1 is stale (a farmer has written c1 since, so the stored revision is 1).
\<close>

definition demo_store :: store where
  "demo_store =
     [''c1'' \<mapsto> (demo_crop Growing)\<lparr>rev := 1\<rparr>,
      ''c2'' \<mapsto> (demo_crop Growing)\<lparr>crop_id := ''c2'', crop_owner := ''bob''\<rparr>]"

definition demo_working_set :: "crop list" where
  "demo_working_set =
     [demo_crop Growing, (demo_crop Growing)\<lparr>crop_id := ''c2'', crop_owner := ''bob''\<rparr>]"

text \<open>A query that fails before time 50 and returns the stale working set after.\<close>

definition demo_query :: "int \<Rightarrow> store \<Rightarrow> error_kind + crop list" where
  "demo_query now s = (if now < 50 then Inl NotFoundError else Inr demo_working_set)"

section \<open>Properties of the configuration\<close>

lemma defaults_dom:
  "dom defaults = {''port'', ''address'', ''hostname'', ''driver'', ''name'', ''description''}"
  by (auto simp: defaults_def split: if_splits)

lemma defaults_params: "defaults ''params'' = None"
  by (simp add: defaults_def)

lemma defaults_sessionSecret: "defaults ''sessionSecret'' = None"
  by (simp add: defaults_def)

lemma defaults_driver: "defaults ''driver'' = Some (JStr ''disk'')"
  by (simp add: defaults_def)

lemma read_config_params:
  "read_config file ''params'' = (case file of None \<Rightarrow> None | Some parsed \<Rightarrow> parsed ''params'')"
  by (simp add: read_config_def us_defaults_def defaults_params split: option.splits)

lemma read_config_default_key:
  "k \<in> dom defaults \<Longrightarrow>
   read_config (Some parsed) k =
     (case parsed k of None \<Rightarrow> defaults k | Some v \<Rightarrow> if v = JNull then defaults k else Some v)"
  by (auto simp: read_config_def us_defaults_def split: option.splits)

lemma read_config_other_key: "k \<notin> dom defaults \<Longrightarrow> read_config (Some parsed) k = parsed k"
  by (auto simp: read_config_def us_defaults_def split: option.splits)

lemma driver_eq_disk_string:
  "config ''driver'' = Some (JStr ''disk'') \<Longrightarrow> driver_eq_disk config = Inr True"
  by (simp add: driver_eq_disk_def)

lemma default_params_kept:
  "\<not> js_not (config ''params'') \<Longrightarrow> default_params config = Inr config"
  by (simp add: default_params_def)

lemma default_params_disk:
  "js_not (config ''params'') \<Longrightarrow> driver_eq_disk config = Inr True \<Longrightarrow>
   default_params config =
     Inr (config(''params'' \<mapsto> JObj [(''dir'', JStr ''/var/lib/openfarmgame/'')]))"
  by (simp add: default_params_def)

lemma default_params_other_driver:
  "js_not (config ''params'') \<Longrightarrow> driver_eq_disk config = Inr False \<Longrightarrow>
   default_params config = Inr (config(''params'' \<mapsto> JObj []))"
  by (simp add: default_params_def)

lemma default_params_throws:
  "js_not (config ''params'') \<Longrightarrow> driver_eq_disk config = Inl e \<Longrightarrow>
   default_params config = Inl e"
  by (simp add: default_params_def)

lemma default_params_other_keys:
  "default_params config = Inr c \<Longrightarrow> k \<noteq> ''params'' \<Longrightarrow> c k = config k"
  by (auto simp: default_params_def split: if_splits sum.splits)

lemma load_config_None:
  "load_config None = Inr (defaults(''params'' \<mapsto> JObj [(''dir'', JStr ''/var/lib/openfarmgame/'')]))"
proof -
  have "js_not (defaults ''params'')" by (simp add: js_not_def defaults_params)
  moreover have "driver_eq_disk defaults = Inr True"
    by (rule driver_eq_disk_string) (rule defaults_driver)
  ultimately show ?thesis
    by (simp add: load_config_def read_config_def default_params_disk)
qed

lemma read_config_null_port: "read_config (Some [''port'' \<mapsto> JNull]) = defaults"
  by (rule ext) (simp add: read_config_def us_defaults_def defaults_def)

text \<open>
  Claim C9, as amended. Without the configuration file the configuration is the built-in
  defaults (port 4000, address and hostname \<^verbatim>\<open>localhost\<close>, driver \<^verbatim>\<open>disk\<close>) with the
  data directory \<^verbatim>\<open>/var/lib/openfarmgame/\<close> as params. Whenever the driver in effect
  is \<^verbatim>\<open>disk\<close> and params is missing (or falsy), params becomes that data directory; with
  any other driver that compares unequal it becomes the empty object; when the comparison
  throws, the module ends with that error. A params the file sets to a truthy value is
  kept, and lines 56--62 change no other key. Params is missing from the merged
  configuration exactly when the file does not set it. For a key of the defaults, the
  file's value is used when the file has the key with a value other than \<^verbatim>\<open>null\<close>, and
  the default when the key is absent or \<^verbatim>\<open>null\<close>; any other key is as in the file.
\<close>

theorem config_defaults:
  "load_config None = Inr (defaults(''params'' \<mapsto> JObj [(''dir'', JStr ''/var/lib/openfarmgame/'')]))
   \<and> defaults ''port'' = Some (JNum 4000)
   \<and> defaults ''address'' = Some (JStr ''localhost'')
   \<and> defaults ''hostname'' = Some (JStr ''localhost'')
   \<and> defaults ''driver'' = Some (JStr ''disk'')
   \<and> (read_config file ''driver'' = Some (JStr ''disk'') \<and> js_not (read_config file ''params'') \<longrightarrow>
        load_config file =
          Inr ((read_config file)(''params'' \<mapsto> JObj [(''dir'', JStr ''/var/lib/openfarmgame/'')])))
   \<and> (js_not (read_config file ''params'') \<and> driver_eq_disk (read_config file) = Inr False \<longrightarrow>
        load_config file = Inr ((read_config file)(''params'' \<mapsto> JObj [])))
   \<and> (js_not (read_config file ''params'') \<and> driver_eq_disk (read_config file) = Inl e \<longrightarrow>
        load_config file = Inl e)
   \<and> (\<not> js_not (read_config file ''params'') \<longrightarrow> load_config file = Inr (read_config file))
   \<and> (load_config file = Inr c \<and> k \<noteq> ''params'' \<longrightarrow> c k = read_config file k)
   \<and> read_config file ''params'' = (case file of None \<Rightarrow> None | Some parsed \<Rightarrow> parsed ''params'')
   \<and> (k \<in> dom defaults \<longrightarrow>
        read_config (Some parsed) k =
          (case parsed k of
             None \<Rightarrow> defaults k
           | Some v \<Rightarrow> if v = JNull then defaults k else Some v))
   \<and> (k \<notin> dom defaults \<longrightarrow> read_config (Some parsed) k = parsed k)"
proof -
  have a: "defaults ''port'' = Some (JNum 4000)" by (simp add: defaults_def)
  have b: "defaults ''address'' = Some (JStr ''localhost'')" by (simp add: defaults_def)
  have c: "defaults ''hostname'' = Some (JStr ''localhost'')" by (simp add: defaults_def)
  have d: "read_config file ''driver'' = Some (JStr ''disk'') \<and> js_not (read_config file ''params'') \<longrightarrow>
        load_config file =
          Inr ((read_config file)(''params'' \<mapsto> JObj [(''dir'', JStr ''/var/lib/openfarmgame/'')]))"
    by (simp add: load_config_def default_params_disk driver_eq_disk_string)
  have e: "js_not (read_config file ''params'') \<and> driver_eq_disk (read_config file) = Inr False \<longrightarrow>
        load_config file = Inr ((read_config file)(''params'' \<mapsto> JObj []))"
    by (simp add: load_config_def default_params_other_driver)
  have f: "js_not (read_config file ''params'') \<and> driver_eq_disk (read_config file) = Inl e \<longrightarrow>
        load_config file = Inl e"
    by (simp add: load_config_def default_params_throws)
  have g: "\<not> js_not (read_config file ''params'') \<longrightarrow> load_config file = Inr (read_config file)"
    by (simp add: load_config_def default_params_kept)
  have h: "load_config file = Inr c \<and> k \<noteq> ''params'' \<longrightarrow> c k = read_config file k"
    unfolding load_config_def using default_params_other_keys [of "read_config file" c k] by blast
  have i: "k \<in> dom defaults \<longrightarrow>
        read_config (Some parsed) k =
          (case parsed k of
             None \<Rightarrow> defaults k
           | Some v \<Rightarrow> if v = JNull then defaults k else Some v)"
    using read_config_default_key [of k parsed] by blast
  have j: "k \<notin> dom defaults \<longrightarrow> read_config (Some parsed) k = parsed k"
    using read_config_other_key [of k parsed] by blast
  from load_config_None a b c defaults_driver d e f g h read_config_params [of "file"] i j
  show ?thesis by blast
qed

text \<open>
  The statement at five files: one that sets the port only (the port is the file's, the
  address the default, params the data directory); one that sets its own params (kept);
  one with the driver \<^verbatim>\<open>memory\<close> (params is the empty object); one whose driver is an
  object with a property \<^verbatim>\<open>toString\<close> (line 57 throws); and one with a key the defaults
  do not have.
\<close>

theorem config_defaults_witness:
  "load_config (Some [''port'' \<mapsto> JNum 8080]) =
     Inr ((read_config (Some [''port'' \<mapsto> JNum 8080]))
            (''params'' \<mapsto> JObj [(''dir'', JStr ''/var/lib/openfarmgame/'')]))
   \<and> read_config (Some [''port'' \<mapsto> JNum 8080]) ''port'' = Some (JNum 8080)
   \<and> read_config (Some [''port'' \<mapsto> JNum 8080]) ''address'' = Some (JStr ''localhost'')
   \<and> load_config (Some [''params'' \<mapsto> JObj [(''dir'', JStr ''/srv/farm/'')]]) =
       Inr (read_config (Some [''params'' \<mapsto> JObj [(''dir'', JStr ''/srv/farm/'')]]))
   \<and> read_config (Some [''params'' \<mapsto> JObj [(''dir'', JStr ''/srv/farm/'')]]) ''params''
       = Some (JObj [(''dir'', JStr ''/srv/farm/'')])
   \<and> load_config (Some [''driver'' \<mapsto> JStr ''memory'']) =
       Inr ((read_config (Some [''driver'' \<mapsto> JStr ''memory'']))(''params'' \<mapsto> JObj []))
   \<and> load_config (Some [''driver'' \<mapsto> JObj [(''toString'', JNull)]]) = Inl TypeError
   \<and> read_config (Some [''sessionSecret'' \<mapsto> JStr ''s3cret'']) ''sessionSecret''
       = Some (JStr ''s3cret'')"
  using
    config_defaults [of "Some [''port'' \<mapsto> JNum 8080]" TypeError
      "(read_config (Some [''port'' \<mapsto> JNum 8080]))
         (''params'' \<mapsto> JObj [(''dir'', JStr ''/var/lib/openfarmgame/'')])"
      "''port''" "[''port'' \<mapsto> JNum 8080]"]
    config_defaults [of "Some [''params'' \<mapsto> JObj [(''dir'', JStr ''/srv/farm/'')]]" TypeError
      "read_config (Some [''params'' \<mapsto> JObj [(''dir'', JStr ''/srv/farm/'')]])"
      "''address''" "[''params'' \<mapsto> JObj [(''dir'', JStr ''/srv/farm/'')]]"]
    config_defaults [of "Some [''driver'' \<mapsto> JStr ''memory'']" TypeError
      "(read_config (Some [''driver'' \<mapsto> JStr ''memory'']))(''params'' \<mapsto> JObj [])"
      "''address''" "[''driver'' \<mapsto> JStr ''memory'']"]
    config_defaults [of "Some [''driver'' \<mapsto> JObj [(''toString'', JNull)]]" TypeError
      "defaults" "''sessionSecret''" "[''sessionSecret'' \<mapsto> JStr ''s3cret'']"]
  by (simp add: read_config_def us_defaults_def defaults_def js_not_def driver_eq_disk_def)

text \<open>
  The claim as first stated fails at a file that sets the port to \<^verbatim>\<open>null\<close>: the key is
  present in the file, and the configuration is the one without any file, with the
  default port 4000.
\<close>

theorem config_defaults_counterexample:
  "[''port'' \<mapsto> JNull] ''port'' = Some JNull
   \<and> load_config (Some [''port'' \<mapsto> JNull]) = load_config None
   \<and> load_config (Some [''port'' \<mapsto> JNull]) =
       Inr (defaults(''params'' \<mapsto> JObj [(''dir'', JStr ''/var/lib/openfarmgame/'')]))
   \<and> (defaults(''params'' \<mapsto> JObj [(''dir'', JStr ''/var/lib/openfarmgame/'')])) ''port''
       = Some (JNum 4000)"
proof -
  have "load_config (Some [''port'' \<mapsto> JNull]) = load_config None"
    by (simp add: load_config_def read_config_null_port) (simp add: read_config_def)
  then show ?thesis by (simp add: load_config_None) (simp add: defaults_def)
qed

lemma load_config_sessionSecret:
  assumes "load_config file = Inr c"
  shows "c ''sessionSecret'' = (case file of None \<Rightarrow> None | Some parsed \<Rightarrow> parsed ''sessionSecret'')"
proof -
  have "c ''sessionSecret'' = read_config file ''sessionSecret''"
    using assms unfolding load_config_def by (rule default_params_other_keys) simp
  then show ?thesis
    by (simp add: read_config_def us_defaults_def defaults_sessionSecret split: option.splits)
qed

text \<open>
  Claim C10. The secret of the session middleware is the fixed string \<^verbatim>\<open>insecure\<close>
  when the configuration has no key \<^verbatim>\<open>sessionSecret\<close>, and the configured value when
  it has one; without a file the configuration is loaded and the secret is \<^verbatim>\<open>insecure\<close>;
  with a file, the secret of the configuration loaded is \<^verbatim>\<open>insecure\<close> when the file
  lacks the key and the file's value when it has the key.
\<close>

theorem session_secret_fallback:
  "(\<not> us_has config ''sessionSecret'' \<longrightarrow> session_secret config = Some (JStr ''insecure''))
   \<and> (us_has config ''sessionSecret'' \<longrightarrow> session_secret config = config ''sessionSecret'')
   \<and> (\<exists>c. load_config None = Inr c \<and> session_secret c = Some (JStr ''insecure''))
   \<and> (load_config (Some parsed) = Inr c' \<longrightarrow>
        session_secret c' =
          (case parsed ''sessionSecret'' of None \<Rightarrow> Some (JStr ''insecure'') | Some v \<Rightarrow> Some v))"
proof -
  have 1: "\<not> us_has config ''sessionSecret'' \<longrightarrow> session_secret config = Some (JStr ''insecure'')"
    by (simp add: session_secret_def)
  have 2: "us_has config ''sessionSecret'' \<longrightarrow> session_secret config = config ''sessionSecret''"
    by (simp add: session_secret_def)
  have 3: "\<exists>c. load_config None = Inr c \<and> session_secret c = Some (JStr ''insecure'')"
    by (simp add: load_config_None session_secret_def us_has_def defaults_sessionSecret)
  have 4: "session_secret c' =
          (case parsed ''sessionSecret'' of None \<Rightarrow> Some (JStr ''insecure'') | Some v \<Rightarrow> Some v)"
    if "load_config (Some parsed) = Inr c'"
    using load_config_sessionSecret [OF that]
    by (simp add: session_secret_def us_has_def split: option.splits)
  from 1 2 3 4 show ?thesis by blast
qed

text \<open>The statement at a file without the key and at a file with it.\<close>

theorem session_secret_fallback_witness:
  "load_config (Some [''port'' \<mapsto> JNum 8080]) =
     Inr ((read_config (Some [''port'' \<mapsto> JNum 8080]))
            (''params'' \<mapsto> JObj [(''dir'', JStr ''/var/lib/openfarmgame/'')]))
   \<and> \<not> us_has ((read_config (Some [''port'' \<mapsto> JNum 8080]))
            (''params'' \<mapsto> JObj [(''dir'', JStr ''/var/lib/openfarmgame/'')])) ''sessionSecret''
   \<and> session_secret ((read_config (Some [''port'' \<mapsto> JNum 8080]))
            (''params'' \<mapsto> JObj [(''dir'', JStr ''/var/lib/openfarmgame/'')]))
       = Some (JStr ''insecure'')
   \<and> load_config (Some [''sessionSecret'' \<mapsto> JStr ''s3cret'']) =
       Inr ((read_config (Some [''sessionSecret'' \<mapsto> JStr ''s3cret'']))
            (''params'' \<mapsto> JObj [(''dir'', JStr ''/var/lib/openfarmgame/'')]))
   \<and> us_has ((read_config (Some [''sessionSecret'' \<mapsto> JStr ''s3cret'']))
            (''params'' \<mapsto> JObj [(''dir'', JStr ''/var/lib/openfarmgame/'')])) ''sessionSecret''
   \<and> session_secret ((read_config (Some [''sessionSecret'' \<mapsto> JStr ''s3cret'']))
            (''params'' \<mapsto> JObj [(''dir'', JStr ''/var/lib/openfarmgame/'')]))
       = Some (JStr ''s3cret'')"
  using
    session_secret_fallback [of
      "(read_config (Some [''port'' \<mapsto> JNum 8080]))
         (''params'' \<mapsto> JObj [(''dir'', JStr ''/var/lib/openfarmgame/'')])"
      "[''port'' \<mapsto> JNum 8080]"
      "(read_config (Some [''port'' \<mapsto> JNum 8080]))
         (''params'' \<mapsto> JObj [(''dir'', JStr ''/var/lib/openfarmgame/'')])"]
    session_secret_fallback [of
      "(read_config (Some [''sessionSecret'' \<mapsto> JStr ''s3cret'']))
         (''params'' \<mapsto> JObj [(''dir'', JStr ''/var/lib/openfarmgame/'')])"
      "[''sessionSecret'' \<mapsto> JStr ''s3cret'']"
      "(read_config (Some [''sessionSecret'' \<mapsto> JStr ''s3cret'']))
         (''params'' \<mapsto> JObj [(''dir'', JStr ''/var/lib/openfarmgame/'')])"]
  by (simp add: load_config_def default_params_def read_config_def us_defaults_def defaults_def
      js_not_def driver_eq_disk_def us_has_def)

section \<open>Properties of the routes\<close>

lemma find_route_owner_routes:
  assumes "path = ''/plot/:plot/water'' \<or> path = ''/plot/:plot/harvest'' \<or> path = ''/plot/:plot/tearup''"
  shows "\<exists>r. find_route app_routes v path = Some r
       \<and> chain r = [userAuth, userRequired, reqPlot, userIsOwner]"
  using assms by (elim disjE; cases v) (simp_all add: app_routes_def mk_route_def)

lemma find_route_mutating_routes:
  assumes "path = ''/plot/:plot/plant'' \<or> path = ''/plot/:plot/water''
         \<or> path = ''/plot/:plot/tearup'' \<or> path = ''/plot/:plot/harvest''
         \<or> path = ''/buy-plot'' \<or> path = ''/logout''"
  shows "\<exists>r ms. find_route app_routes POST path = Some r
       \<and> chain r = userAuth # userRequired # ms"
  using assms by (elim disjE) (simp_all add: app_routes_def mk_route_def)

lemma userAuth_farmer:
  "session_farmerID req = Some fid \<Longrightarrow> fid \<noteq> [] \<Longrightarrow> Farmer_get db fid = Inr f \<Longrightarrow>
   userAuth db req = Inr (req\<lparr>req_user := Some f\<rparr>)"
  by (simp add: userAuth_def)

lemma userAuth_no_farmer:
  "no_farmerID req \<Longrightarrow> userAuth db req = Inr (req\<lparr>req_user := None\<rparr>)"
  by (auto simp: userAuth_def no_farmerID_def split: option.splits)

lemma run_chain_not_owner:
  assumes "session_farmerID req = Some fid" and "fid \<noteq> []"
    and "Farmer_get db fid = Inr f"
    and "Plot_get db (params req ''plot'') = Inr p"
    and "id_farmer f \<noteq> owner p"
  shows "run_chain db [userAuth, userRequired, reqPlot, userIsOwner] req = Inl (Error ''Must be the owner'')"
  using assms by (simp add: userAuth_farmer userRequired_def reqPlot_def userIsOwner_def)

lemma run_chain_no_user:
  "no_farmerID req \<Longrightarrow> run_chain db (userAuth # userRequired # ms) req = Inl (Error ''User is required'')"
  by (simp add: userAuth_no_farmer userRequired_def)

text \<open>
  Claim C2. On the water, harvest and tear-up routes of a plot, with either method, a
  request of a farmer who is logged in and is not the owner of the plot fails with the
  error \<^verbatim>\<open>Must be the owner\<close>, whatever the plot and the phase of its crop are; the
  handler does not run, so the world is as it was.
\<close>

theorem not_owner_rejected:
  assumes "path = ''/plot/:plot/water'' \<or> path = ''/plot/:plot/harvest'' \<or> path = ''/plot/:plot/tearup''"
    and "session_farmerID req = Some fid" and "fid \<noteq> []"
    and "Farmer_get db fid = Inr f"
    and "Plot_get db (params req ''plot'') = Inr p"
    and "id_farmer f \<noteq> owner p"
  shows "\<exists>r. find_route app_routes v path = Some r
           \<and> serve db handlers r req world = (Inl (Error ''Must be the owner''), world)"
proof -
  from find_route_owner_routes [OF assms(1)] obtain r where
    r: "find_route app_routes v path = Some r"
    and c: "chain r = [userAuth, userRequired, reqPlot, userIsOwner]" by blast
  have "run_chain db (chain r) req = Inl (Error ''Must be the owner'')"
    unfolding c by (rule run_chain_not_owner [OF assms(2-6)])
  then have "serve db handlers r req world = (Inl (Error ''Must be the owner''), world)"
    by (simp add: serve_def)
  with r show ?thesis by blast
qed

text \<open>
  The statement at bob's request to water alice's plot.
\<close>

theorem not_owner_rejected_witness:
  "\<exists>r. find_route app_routes POST ''/plot/:plot/water'' = Some r
      \<and> serve demo_bank demo_handlers r (demo_request (Some ''bob'')) 0 = (Inl (Error ''Must be the owner''), 0)"
  using not_owner_rejected [of "''/plot/:plot/water''" "demo_request (Some ''bob'')" "''bob''" demo_bank
      "\<lparr>id_farmer = ''bob''\<rparr>" "\<lparr>uuid = ''p1'', owner = ''alice'', plot_crop = None\<rparr>" POST demo_handlers 0]
  by (simp add: demo_bank_def demo_request_def)

text \<open>
  Claim C8. On the routes that change state (plant, water, tear-up, harvest, buy-plot and
  logout, all with POST), a request whose session carries no farmer fails with the error
  \<^verbatim>\<open>User is required\<close> before the handler runs, so the world is as it was.
\<close>

theorem user_required_on_mutating_routes:
  assumes "path = ''/plot/:plot/plant'' \<or> path = ''/plot/:plot/water''
         \<or> path = ''/plot/:plot/tearup'' \<or> path = ''/plot/:plot/harvest''
         \<or> path = ''/buy-plot'' \<or> path = ''/logout''"
    and "no_farmerID req"
  shows "\<exists>r. find_route app_routes POST path = Some r
           \<and> serve db handlers r req world = (Inl (Error ''User is required''), world)"
proof -
  from find_route_mutating_routes [OF assms(1)] obtain r ms where
    r: "find_route app_routes POST path = Some r"
    and c: "chain r = userAuth # userRequired # ms" by blast
  have "run_chain db (chain r) req = Inl (Error ''User is required'')"
    unfolding c by (rule run_chain_no_user [OF assms(2)])
  then have "serve db handlers r req world = (Inl (Error ''User is required''), world)"
    by (simp add: serve_def)
  with r show ?thesis by blast
qed

text \<open>
  The statement at a request to buy a plot without a session farmer.
\<close>

theorem user_required_on_mutating_routes_witness:
  "\<exists>r. find_route app_routes POST ''/buy-plot'' = Some r
      \<and> serve demo_bank demo_handlers r (demo_request None) 0 = (Inl (Error ''User is required''), 0)"
  using user_required_on_mutating_routes [of "''/buy-plot''" "demo_request None" demo_bank demo_handlers 0]
  by (simp add: demo_request_def no_farmerID_def)

section \<open>Properties of the startup\<close>

lemmas startup_defs = startup_def task_connect_def task_initialData_def task_serve_def
  final_callback_def steps_def is_step_def

lemma startup_connect_not_completed:
  "connect_outcome env \<noteq> Completed \<Longrightarrow> steps (startup env) = [db_connect]
     \<and> set (startup env) \<subseteq> {db_connect, log_listening}"
  by (cases "connect_outcome env") (auto simp: startup_defs)

lemma startup_seed_not_completed:
  "connect_outcome env = Completed \<Longrightarrow> initialData_outcome env \<noteq> Completed \<Longrightarrow>
   steps (startup env) = [db_connect, CropType_initialData]
     \<and> set (startup env) \<subseteq> {db_connect, set_bank, CropType_initialData, log_listening}"
  by (cases "initialData_outcome env") (auto simp: startup_defs)

lemma startup_setup_throws:
  "connect_outcome env = Completed \<Longrightarrow> initialData_outcome env = Completed \<Longrightarrow>
   \<not> server_setup_returns env \<Longrightarrow>
   startup env = [db_connect, set_bank, CropType_initialData, create_server]"
  by (simp add: startup_defs)

lemma startup_updater_throws:
  "connect_outcome env = Completed \<Longrightarrow> initialData_outcome env = Completed \<Longrightarrow>
   server_setup_returns env \<Longrightarrow> \<not> updater_start_returns env \<Longrightarrow>
   startup env = [db_connect, set_bank, CropType_initialData, create_server, updater_start]"
  by (simp add: startup_defs)

lemma startup_all_return:
  "connect_outcome env = Completed \<Longrightarrow> initialData_outcome env = Completed \<Longrightarrow>
   server_setup_returns env \<Longrightarrow> updater_start_returns env \<Longrightarrow>
   steps (startup env) = [db_connect, CropType_initialData, updater_start, app_listen]"
  by (simp add: startup_defs)

text \<open>
  Claim C3. The steps of the startup happen in the order connect, seed the registry,
  start the updater, listen: what happened is always a beginning of that sequence; the
  registry is seeded only when the connection succeeded, the updater is started only when
  the seeding succeeded too, the server listens only when the updater's start returned;
  and when every step succeeds the whole sequence happens.
\<close>

theorem startup_order:
  "prefix (steps (startup env)) [db_connect, CropType_initialData, updater_start, app_listen]
   \<and> (CropType_initialData \<in> set (startup env) \<longrightarrow> connect_outcome env = Completed)
   \<and> (updater_start \<in> set (startup env) \<longrightarrow>
        connect_outcome env = Completed \<and> initialData_outcome env = Completed)
   \<and> (app_listen \<in> set (startup env) \<longrightarrow>
        connect_outcome env = Completed \<and> initialData_outcome env = Completed
        \<and> updater_start_returns env)
   \<and> (connect_outcome env = Completed \<and> initialData_outcome env = Completed
        \<and> server_setup_returns env \<and> updater_start_returns env \<longrightarrow>
        steps (startup env) = [db_connect, CropType_initialData, updater_start, app_listen])"
proof (cases "connect_outcome env = Completed")
  case False
  from startup_connect_not_completed [OF False] show ?thesis using False by auto
next
  case c: True
  show ?thesis
  proof (cases "initialData_outcome env = Completed")
    case False
    from startup_seed_not_completed [OF c False] show ?thesis using c False by auto
  next
    case i: True
    show ?thesis
    proof (cases "server_setup_returns env")
      case False
      from startup_setup_throws [OF c i False] show ?thesis
        using c i False by (simp add: steps_def is_step_def)
    next
      case s: True
      show ?thesis
      proof (cases "updater_start_returns env")
        case False
        from startup_updater_throws [OF c i s False] show ?thesis
          using c i s False by (simp add: steps_def is_step_def)
      next
        case u: True
        from startup_all_return [OF c i s u] show ?thesis
          using c i s u by simp
      qed
    qed
  qed
qed

text \<open>
  The statement with collaborators that all succeed: the full trace of the startup.
\<close>

theorem startup_order_witness:
  "startup demo_collaborators =
     [db_connect, set_bank, CropType_initialData, create_server, updater_start, app_listen, log_listening]
   \<and> steps (startup demo_collaborators) = [db_connect, CropType_initialData, updater_start, app_listen]
   \<and> app_listen \<in> set (startup demo_collaborators)"
  using startup_order [of demo_collaborators]
  by (simp add: demo_collaborators_def startup_defs)

section \<open>Properties of the crop state machine and of the registry\<close>

lemma reconcile_terminal: "terminal (phase c) \<Longrightarrow> reconcile c now = (c, [])"
  by (simp add: reconcile_def)

lemma reconcile_all_terminal: "terminal (phase c) \<Longrightarrow> reconcile_all c ts = c"
  by (induction ts) (simp_all add: reconcile_terminal)

text \<open>
  Claim C1. For a crop that is neither ready to harvest nor withered and whose maturity
  deadline has passed, the transition rule sets the phase to ReadyToHarvest and emits
  exactly the notification \<open>ready\<close>; no \<open>withered\<close> notification is emitted, wherever
  the withering deadline lies.
\<close>

theorem maturity_takes_precedence:
  assumes "\<not> terminal (phase c)" and "maturity_deadline c \<le> now"
  shows "phase (fst (reconcile c now)) = ReadyToHarvest
       \<and> snd (reconcile c now) = [ready]
       \<and> withered \<notin> set (snd (reconcile c now))"
  using assms by (simp add: reconcile_def)

text \<open>
  The scenario of the spec: the carrot planted at 0 and never watered, read at 61, when
  the withering deadline (40) has passed as well.
\<close>

theorem maturity_takes_precedence_witness:
  "\<not> terminal (phase (demo_crop NeedsWater))
   \<and> maturity_deadline (demo_crop NeedsWater) \<le> 61
   \<and> withering_deadline (demo_crop NeedsWater) \<le> 61
   \<and> phase (fst (reconcile (demo_crop NeedsWater) 61)) = ReadyToHarvest
   \<and> snd (reconcile (demo_crop NeedsWater) 61) = [ready]"
  using maturity_takes_precedence [of "demo_crop NeedsWater" 61]
  by (simp add: demo_crop_def carrot_def terminal_def maturity_deadline_def withering_deadline_def)

text \<open>
  Claim C4. Applying the transition rule a second time against the same time yields the
  same phase as applying it once; in fact the same crop, and no further event.
\<close>

theorem reconcile_idempotent:
  "phase (fst (reconcile (fst (reconcile c now)) now)) = phase (fst (reconcile c now))
   \<and> fst (reconcile (fst (reconcile c now)) now) = fst (reconcile c now)
   \<and> snd (reconcile (fst (reconcile c now)) now) = []"
  by (simp add: reconcile_def terminal_def maturity_deadline_def withering_deadline_def
      watering_due_def)

text \<open>
  Claim C5. Once the crop of a plot is ready to harvest or withered, the transition rule
  leaves it as it is, at one time and at any sequence of times; watering fails; and any
  action that succeeds either leaves the crop on the plot in the same phase, or is a
  harvest of a ready crop or a tear-up of a withered one and detaches it.
\<close>

theorem terminal_phases_absorbing:
  assumes "plot_crop p = Some c" and "terminal (phase c)"
  shows "reconcile c now = (c, [])
       \<and> phase (reconcile_all c ts) = phase c
       \<and> water p who now \<in> {Inl NotFoundError, Inl OwnershipError, Inl InvalidStateError}
       \<and> (\<forall>p'. apply_action p a = Inr p' \<longrightarrow>
            (\<exists>c'. plot_crop p' = Some c' \<and> phase c' = phase c)
            \<or> (plot_crop p' = None
                \<and> ((\<exists>w t. a = Harvest w t) \<and> phase c = ReadyToHarvest
                    \<or> (\<exists>w t. a = TearUp w t) \<and> phase c = Withered)))"
proof -
  have r: "\<And>t. reconcile c t = (c, [])" using assms(2) by (rule reconcile_terminal)
  have w: "\<And>w t. water p w t \<in> {Inl NotFoundError, Inl OwnershipError, Inl InvalidStateError}"
    using assms by (simp add: water_def r)
  have a: "\<forall>p'. apply_action p a = Inr p' \<longrightarrow>
            (\<exists>c'. plot_crop p' = Some c' \<and> phase c' = phase c)
            \<or> (plot_crop p' = None
                \<and> ((\<exists>w t. a = Harvest w t) \<and> phase c = ReadyToHarvest
                    \<or> (\<exists>w t. a = TearUp w t) \<and> phase c = Withered))"
  proof (cases a)
    case (Reconcile t)
    then show ?thesis using assms by (auto simp: r)
  next
    case (Water w t)
    then show ?thesis using w [of w t] by auto
  next
    case (Harvest w t)
    then show ?thesis using assms by (auto simp: harvest_def r split: if_splits)
  next
    case (TearUp w t)
    then show ?thesis using assms by (auto simp: tearUp_def r terminal_def split: if_splits)
  qed
  from r w a reconcile_all_terminal [OF assms(2)] show ?thesis by simp
qed

text \<open>
  The statement at a withered carrot: reconciling changes nothing, watering and
  harvesting fail, tearing it up clears the plot.
\<close>

theorem terminal_phases_absorbing_witness:
  "plot_crop (demo_plot Withered) = Some (demo_crop Withered)
   \<and> terminal (phase (demo_crop Withered))
   \<and> reconcile (demo_crop Withered) 100 = (demo_crop Withered, [])
   \<and> water (demo_plot Withered) ''alice'' 100 = Inl InvalidStateError
   \<and> apply_action (demo_plot Withered) (Harvest ''alice'' 100) = Inl InvalidStateError
   \<and> apply_action (demo_plot Withered) (TearUp ''alice'' 100)
       = Inr (\<lparr>uuid = ''p1'', owner = ''alice'', plot_crop = None\<rparr>)"
  using terminal_phases_absorbing [of "demo_plot Withered" "demo_crop Withered" 100 "[]" "''alice''" "TearUp ''alice'' 100"]
  by (simp add: demo_plot_def demo_crop_def terminal_def water_def harvest_def tearUp_def reconcile_def)

text \<open>
  Claim C6. Seeding the registry changes nothing when the catalog is populated, installs
  the seed list when it is empty, and a second call leaves what the first call left.
\<close>

theorem ensureInitialData_idempotent:
  "(catalog \<noteq> [] \<longrightarrow> ensureInitialData seed catalog = catalog)
   \<and> (catalog = [] \<longrightarrow> ensureInitialData seed catalog = seed)
   \<and> ensureInitialData seed (ensureInitialData seed catalog) = ensureInitialData seed catalog"
  by (simp add: ensureInitialData_def)

text \<open>
  The statement at an empty catalog with the carrot as seed, and at a populated one.
\<close>

theorem ensureInitialData_idempotent_witness:
  "ensureInitialData [carrot] [] = [carrot]
   \<and> ensureInitialData [carrot] (ensureInitialData [carrot] []) = [carrot]
   \<and> ensureInitialData [] [carrot] = [carrot]"
  using ensureInitialData_idempotent [of "[]" "[carrot]"]
    ensureInitialData_idempotent [of "[carrot]" "[]"]
  by (simp add: ensureInitialData_def)

section \<open>Properties of the sweep\<close>

lemma reconcile_crop_id: "crop_id (fst (reconcile c now)) = crop_id c"
  by (simp add: reconcile_def)

lemma reconcile_rev: "rev (fst (reconcile c now)) = rev c"
  by (simp add: reconcile_def)

lemma save_Inl_cong: "s (crop_id c) = s' (crop_id c) \<Longrightarrow> save s c = Inl e \<Longrightarrow> save s' c = Inl e"
  by (auto simp: save_def split: option.splits if_splits)

lemma save_Inr_key:
  "save s c = Inr s' \<Longrightarrow>
   (\<exists>old. s (crop_id c) = Some old \<and> rev old = rev c) \<and> s' (crop_id c) = Some (c\<lparr>rev := Suc (rev c)\<rparr>)"
  by (auto simp: save_def split: option.splits if_splits)

lemma save_other: "save s c = Inr s' \<Longrightarrow> k \<noteq> crop_id c \<Longrightarrow> s' k = s k"
  by (auto simp: save_def split: option.splits if_splits)

lemma sweep_crop_processed: "processed (sweep_crop now st c) = processed st @ [crop_id c]"
  by (simp add: sweep_crop_def Let_def split: prod.splits sum.splits)

lemma sweep_crops_processed: "processed (sweep_crops now st cs) = processed st @ map crop_id cs"
  by (induction cs arbitrary: st) (simp_all add: sweep_crop_processed)

lemma sweep_crop_other: "k \<noteq> crop_id c \<Longrightarrow> sw_store (sweep_crop now st c) k = sw_store st k"
proof -
  assume k: "k \<noteq> crop_id c"
  obtain c' evs where r: "reconcile c now = (c', evs)" by (cases "reconcile c now")
  then have "crop_id c' = crop_id c" using reconcile_crop_id [of c now] by simp
  with k have k': "k \<noteq> crop_id c'" by simp
  show ?thesis
  proof (cases "save (sw_store st) c'")
    case (Inl e)
    then show ?thesis by (simp add: sweep_crop_def r Let_def)
  next
    case (Inr b)
    from save_other [OF Inr k'] have "b k = sw_store st k" .
    with Inr show ?thesis by (simp add: sweep_crop_def r Let_def)
  qed
qed

lemma sweep_crops_other:
  "k \<notin> crop_id ` set cs \<Longrightarrow> sw_store (sweep_crops now st cs) k = sw_store st k"
  by (induction cs arbitrary: st) (simp_all add: sweep_crop_other)

lemma sweep_crop_log_mono: "set (sw_log st) \<subseteq> set (sw_log (sweep_crop now st c))"
  by (auto simp: sweep_crop_def Let_def split: prod.splits sum.splits)

lemma sweep_crop_notifications_mono:
  "set (notifications st) \<subseteq> set (notifications (sweep_crop now st c))"
  by (auto simp: sweep_crop_def Let_def split: prod.splits sum.splits)

lemma sweep_crops_log_mono: "set (sw_log st) \<subseteq> set (sw_log (sweep_crops now st cs))"
proof (induction cs arbitrary: st)
  case Nil
  then show ?case by simp
next
  case (Cons x xs)
  from sweep_crop_log_mono [of st now x] Cons [of "sweep_crop now st x"] show ?case by auto
qed

lemma sweep_crops_notifications_mono:
  "set (notifications st) \<subseteq> set (notifications (sweep_crops now st cs))"
proof (induction cs arbitrary: st)
  case Nil
  then show ?case by simp
next
  case (Cons x xs)
  from sweep_crop_notifications_mono [of st now x] Cons [of "sweep_crop now st x"]
  show ?case by auto
qed

lemma sweep_crop_save_fails:
  assumes "phase (fst (reconcile c now)) \<noteq> phase c"
    and "save (sw_store st) (fst (reconcile c now)) = Inl e"
  shows "(crop_id c, e) \<in> set (sw_log (sweep_crop now st c))
       \<and> sw_store (sweep_crop now st c) = sw_store st
       \<and> notifications (sweep_crop now st c) = notifications st"
  using assms by (cases "reconcile c now") (simp add: sweep_crop_def)

lemma sweep_crop_save_succeeds:
  assumes "phase (fst (reconcile c now)) \<noteq> phase c"
    and "save (sw_store st) (fst (reconcile c now)) = Inr s'"
  shows "sw_store (sweep_crop now st c) = s'
       \<and> (\<forall>k\<in>set (snd (reconcile c now)).
            (crop_owner c, k, crop_id c) \<in> set (notifications (sweep_crop now st c)))"
  using assms by (cases "reconcile c now") (auto simp: sweep_crop_def)

lemma sweep_crops_save_fails:
  assumes "distinct (map crop_id cs)" and "c \<in> set cs"
    and "phase (fst (reconcile c now)) \<noteq> phase c"
    and "save (sw_store st) (fst (reconcile c now)) = Inl e"
  shows "(crop_id c, e) \<in> set (sw_log (sweep_crops now st cs))
       \<and> sw_store (sweep_crops now st cs) (crop_id c) = sw_store st (crop_id c)"
  using assms
proof (induction cs arbitrary: st)
  case Nil
  then show ?case by simp
next
  case (Cons x xs)
  show ?case
  proof (cases "x = c")
    case True
    from Cons.prems(1) True have notin: "crop_id c \<notin> crop_id ` set xs" by auto
    from sweep_crop_save_fails [OF Cons.prems(3,4)]
    have l: "(crop_id c, e) \<in> set (sw_log (sweep_crop now st c))"
      and s: "sw_store (sweep_crop now st c) = sw_store st" by simp_all
    from l sweep_crops_log_mono [of "sweep_crop now st c" now xs]
    have "(crop_id c, e) \<in> set (sw_log (sweep_crops now (sweep_crop now st c) xs))" by blast
    moreover have "sw_store (sweep_crops now (sweep_crop now st c) xs) (crop_id c) = sw_store st (crop_id c)"
      using sweep_crops_other [OF notin, of now "sweep_crop now st c"] s by simp
    ultimately show ?thesis using True by simp
  next
    case False
    with Cons.prems have cin: "c \<in> set xs" and d: "distinct (map crop_id xs)"
      and nx: "crop_id x \<notin> crop_id ` set xs" by auto
    from cin have "crop_id c \<in> crop_id ` set xs" by (rule imageI)
    with nx have ne: "crop_id c \<noteq> crop_id x" by auto
    have same: "sw_store (sweep_crop now st x) (crop_id c) = sw_store st (crop_id c)"
      by (rule sweep_crop_other [OF ne])
    have "save (sw_store (sweep_crop now st x)) (fst (reconcile c now)) = Inl e"
      by (rule save_Inl_cong [OF _ Cons.prems(4)]) (simp add: reconcile_crop_id same)
    from Cons.IH [OF d cin Cons.prems(3) this] same show ?thesis by simp
  qed
qed

lemma sweep_crops_save_succeeds:
  assumes "distinct (map crop_id cs)" and "c \<in> set cs"
    and "phase (fst (reconcile c now)) \<noteq> phase c"
    and "sw_store st (crop_id c) = Some old" and "rev old = rev c"
  shows "sw_store (sweep_crops now st cs) (crop_id c)
           = Some ((fst (reconcile c now))\<lparr>rev := Suc (rev c)\<rparr>)
       \<and> (\<forall>k\<in>set (snd (reconcile c now)).
            (crop_owner c, k, crop_id c) \<in> set (notifications (sweep_crops now st cs)))"
  using assms
proof (induction cs arbitrary: st)
  case Nil
  then show ?case by simp
next
  case (Cons x xs)
  show ?case
  proof (cases "x = c")
    case True
    from Cons.prems(1) True have notin: "crop_id c \<notin> crop_id ` set xs" by auto
    have sv: "save (sw_store st) (fst (reconcile c now))
        = Inr ((sw_store st)(crop_id c \<mapsto> (fst (reconcile c now))\<lparr>rev := Suc (rev c)\<rparr>))"
      using Cons.prems(4,5) by (simp add: save_def reconcile_crop_id reconcile_rev)
    from sweep_crop_save_succeeds [OF Cons.prems(3) sv]
    have s: "sw_store (sweep_crop now st c) (crop_id c) = Some ((fst (reconcile c now))\<lparr>rev := Suc (rev c)\<rparr>)"
      and n: "\<forall>k\<in>set (snd (reconcile c now)).
            (crop_owner c, k, crop_id c) \<in> set (notifications (sweep_crop now st c))" by simp_all
    from n sweep_crops_notifications_mono [of "sweep_crop now st c" now xs]
    have "\<forall>k\<in>set (snd (reconcile c now)).
            (crop_owner c, k, crop_id c) \<in> set (notifications (sweep_crops now (sweep_crop now st c) xs))"
      by blast
    moreover have "sw_store (sweep_crops now (sweep_crop now st c) xs) (crop_id c)
        = Some ((fst (reconcile c now))\<lparr>rev := Suc (rev c)\<rparr>)"
      using sweep_crops_other [OF notin, of now "sweep_crop now st c"] s by simp
    ultimately show ?thesis using True by simp
  next
    case False
    with Cons.prems have cin: "c \<in> set xs" and d: "distinct (map crop_id xs)"
      and nx: "crop_id x \<notin> crop_id ` set xs" by auto
    from cin have "crop_id c \<in> crop_id ` set xs" by (rule imageI)
    with nx have ne: "crop_id c \<noteq> crop_id x" by auto
    have same: "sw_store (sweep_crop now st x) (crop_id c) = Some old"
      using sweep_crop_other [OF ne, of now st] Cons.prems(4) by simp
    from Cons.IH [OF d cin Cons.prems(3) same Cons.prems(5)] show ?thesis by simp
  qed
qed

lemma run_sweeps_length: "length (fst (run_sweeps query ticks s)) = length ticks"
  by (induction ticks arbitrary: s) (simp_all add: Let_def case_prod_beta)

text \<open>
  Claim C7. When the query for the working set succeeds, the sweep completes and has
  dealt with every crop of the working set, in order. With distinct crops, each crop
  whose phase changes is settled by its own save alone: if the save fails, the error is
  logged and the stored crop stays as it was; if it succeeds, the store holds the new
  crop and the notifications of its events are queued, whatever happened to the other
  crops. When the query fails the sweep is aborted with that error, and the scheduler
  goes on with the remaining ticks on the same store; there is one report per tick.
\<close>

theorem sweep_isolates_failures:
  "(query now s = Inr ws \<longrightarrow>
      (\<exists>st. sweep query now s = Inr st
         \<and> processed st = map crop_id ws
         \<and> (distinct (map crop_id ws) \<longrightarrow>
             (\<forall>c\<in>set ws. phase (fst (reconcile c now)) \<noteq> phase c \<longrightarrow>
                (case save s (fst (reconcile c now)) of
                   Inl e \<Rightarrow> (crop_id c, e) \<in> set (sw_log st)
                            \<and> sw_store st (crop_id c) = s (crop_id c)
                 | Inr s' \<Rightarrow> sw_store st (crop_id c) = s' (crop_id c)
                            \<and> (\<forall>k\<in>set (snd (reconcile c now)).
                                 (crop_owner c, k, crop_id c) \<in> set (notifications st)))))))
   \<and> (query now s = Inl e \<longrightarrow>
        sweep query now s = Inl e
        \<and> run_sweeps query (now # ticks) s
            = (Inl e # fst (run_sweeps query ticks s), snd (run_sweeps query ticks s)))
   \<and> length (fst (run_sweeps query ticks s)) = length ticks"
proof -
  let ?init = "\<lparr>sw_store = s, notifications = [], sw_log = [], processed = []\<rparr>"
  have ok: "\<exists>st. sweep query now s = Inr st
         \<and> processed st = map crop_id ws
         \<and> (distinct (map crop_id ws) \<longrightarrow>
             (\<forall>c\<in>set ws. phase (fst (reconcile c now)) \<noteq> phase c \<longrightarrow>
                (case save s (fst (reconcile c now)) of
                   Inl e \<Rightarrow> (crop_id c, e) \<in> set (sw_log st)
                            \<and> sw_store st (crop_id c) = s (crop_id c)
                 | Inr s' \<Rightarrow> sw_store st (crop_id c) = s' (crop_id c)
                            \<and> (\<forall>k\<in>set (snd (reconcile c now)).
                                 (crop_owner c, k, crop_id c) \<in> set (notifications st)))))"
    if q: "query now s = Inr ws"
  proof -
    let ?fin = "sweep_crops now ?init ws"
    have 1: "sweep query now s = Inr ?fin" by (simp add: sweep_def q)
    have 2: "processed ?fin = map crop_id ws" by (simp add: sweep_crops_processed)
    have 3: "case save s (fst (reconcile c now)) of
                   Inl e \<Rightarrow> (crop_id c, e) \<in> set (sw_log ?fin)
                            \<and> sw_store ?fin (crop_id c) = s (crop_id c)
                 | Inr s' \<Rightarrow> sw_store ?fin (crop_id c) = s' (crop_id c)
                            \<and> (\<forall>k\<in>set (snd (reconcile c now)).
                                 (crop_owner c, k, crop_id c) \<in> set (notifications ?fin))"
      if d: "distinct (map crop_id ws)" and c: "c \<in> set ws"
        and ph: "phase (fst (reconcile c now)) \<noteq> phase c" for c
    proof (cases "save s (fst (reconcile c now))")
      case (Inl e')
      then have "save (sw_store ?init) (fst (reconcile c now)) = Inl e'" by simp
      from sweep_crops_save_fails [OF d c ph this] Inl show ?thesis by simp
    next
      case (Inr s')
      from save_Inr_key [OF Inr] obtain old where
        o: "s (crop_id c) = Some old" and r: "rev old = rev c"
        and k: "s' (crop_id c) = Some ((fst (reconcile c now))\<lparr>rev := Suc (rev c)\<rparr>)"
        by (auto simp: reconcile_crop_id reconcile_rev)
      from o have "sw_store ?init (crop_id c) = Some old" by simp
      from sweep_crops_save_succeeds [OF d c ph this r] Inr k show ?thesis by simp
    qed
    from 1 2 3 show ?thesis by blast
  qed
  have abort: "sweep query now s = Inl e
        \<and> run_sweeps query (now # ticks) s
            = (Inl e # fst (run_sweeps query ticks s), snd (run_sweeps query ticks s))"
    if q: "query now s = Inl e"
    by (simp add: sweep_def q Let_def case_prod_beta)
  from ok abort run_sweeps_length [of query ticks s] show ?thesis by blast
qed

lemmas demo_defs = demo_query_def demo_working_set_def demo_store_def demo_crop_def carrot_def
  sweep_def sweep_crop_def reconcile_def save_def terminal_def maturity_deadline_def
  withering_deadline_def watering_due_def

text \<open>
  The statement at time 61 on the store whose crop c1 has been written since the working
  set was read: the conflict on c1 is logged, c2 is nevertheless saved as ready and bob is
  notified; and at time 40, when the query fails, with the sweep at 61 that follows.
\<close>

theorem sweep_isolates_failures_witness:
  "demo_query 61 demo_store = Inr demo_working_set
   \<and> distinct (map crop_id demo_working_set)
   \<and> map_sum id processed (sweep demo_query 61 demo_store) = Inr [''c1'', ''c2'']
   \<and> map_sum id sw_log (sweep demo_query 61 demo_store) = Inr [(''c1'', ConflictError)]
   \<and> map_sum id notifications (sweep demo_query 61 demo_store) = Inr [(''bob'', ready, ''c2'')]
   \<and> map_sum id (\<lambda>st. map_option phase (sw_store st ''c2'')) (sweep demo_query 61 demo_store)
       = Inr (Some ReadyToHarvest)
   \<and> map_sum id (\<lambda>st. sw_store st ''c1'') (sweep demo_query 61 demo_store)
       = Inr (demo_store ''c1'')
   \<and> demo_query 40 demo_store = Inl NotFoundError
   \<and> sweep demo_query 40 demo_store = Inl NotFoundError
   \<and> map (map_sum id processed) (fst (run_sweeps demo_query [40, 61] demo_store))
       = [Inl NotFoundError, Inr [''c1'', ''c2'']]"
  using sweep_isolates_failures [of demo_query 61 demo_store demo_working_set NotFoundError "[]"]
    sweep_isolates_failures [of demo_query 40 demo_store demo_working_set NotFoundError "[61]"]
  by (simp add: demo_defs)

end
